theory Spec2Isabelle
  imports Complex_Main
begin

section \<open>Values of the relay service\<close>

text \<open>
  The service of \<^verbatim>\<open>functions/index.js\<close> is an Express application with the routes
  \<^verbatim>\<open>/api/createVideo\<close>, \<^verbatim>\<open>/api/checkStatus\<close> and \<^verbatim>\<open>/api/test\<close>. It reads query
  parameters, fetches a credential from the secret store, calls the remote generation
  API once and answers with a JSON body. The model starts at the handler of a route, with
  \<^verbatim>\<open>req.query\<close> as its input, and ends at the status code and the body that the
  handler sends; routing, CORS and the \<^verbatim>\<open>/health\<close> route are outside it.

  A JSON value is what \<^verbatim>\<open>JSON.parse\<close> yields and \<^verbatim>\<open>JSON.stringify\<close> prints.
  Reading a property of a JavaScript object gives \<^verbatim>\<open>undefined\<close> when the object has no
  such property: a property read is a \<open>json option\<close>, with \<open>None\<close> for \<^verbatim>\<open>undefined\<close>.
\<close>

datatype json =
    JNull
  | JBool bool
  | JNumber real
  | JString string
  | JArray "json list"
  | JObject "(string \<times> json) list"

type_synonym jsvalue = "json option"

text \<open>
  The record that the remote API's client returns (\<^verbatim>\<open>prediction\<close>) is a parsed JSON
  object: a finite map from property names to JSON values.
\<close>

type_synonym prediction = "string \<rightharpoonup> json"

text \<open>
  \<^verbatim>\<open>req.query\<close> is the object that Express's query parser builds: a parameter is a
  string, an array (a repeated parameter) or a nested object (bracket notation); a
  parameter that the request does not carry reads as \<^verbatim>\<open>undefined\<close>.
\<close>

datatype qval =
    QStr string
  | QArr "qval list"
  | QObj "(string \<times> qval) list"

type_synonym query = "string \<rightharpoonup> qval"

text \<open>
  JavaScript's \<^verbatim>\<open>!v\<close> on such a value: \<^verbatim>\<open>undefined\<close> and the empty string are falsy,
  every other string and every array and object (also an empty one) is truthy.
\<close>

fun truthy :: "qval option \<Rightarrow> bool" where
  "truthy None = False"
| "truthy (Some (QStr s)) = (s \<noteq> [])"
| "truthy (Some (QArr xs)) = True"
| "truthy (Some (QObj kvs)) = True"

text \<open>
  A thrown error is an \<^verbatim>\<open>Error\<close> object, of which the handlers read \<^verbatim>\<open>message\<close> only.
\<close>

datatype js_error = JsError (message: string)

section \<open>Configuration\<close>

record config =
  PROJECT_ID :: string
  SECRET_NAME :: string
  DEFAULT_RESOLUTION :: string
  DEFAULT_MODEL :: string

definition CONFIG :: config where
  "CONFIG = \<lparr> PROJECT_ID = ''YOUR_PROJECT_NUMBER'',
              SECRET_NAME = ''Replicate_APIKey'',
              DEFAULT_RESOLUTION = ''480p'',
              DEFAULT_MODEL = ''bytedance/seedance-1-lite'' \<rparr>"

section \<open>The outside world\<close>

text \<open>
  The argument of \<^verbatim>\<open>replicate.predictions.create\<close>:
  \<^verbatim>\<open>{model, input: {prompt, image, resolution}}\<close>.
\<close>

record create_request =
  model :: string
  input_prompt :: "qval option"
  input_image :: "qval option"
  input_resolution :: "qval option"

text \<open>
  The secret store and the remote API are collaborators outside the repository. They are
  parameters of the model: each call either throws (\<open>Inl\<close>) or returns (\<open>Inr\<close>).
  \<open>accessSecretVersion\<close> takes the secret path and returns the payload decoded as UTF-8;
  the two operations of the remote API take the credential that the client was
  constructed with (\<^verbatim>\<open>new Replicate({ auth: apiKey })\<close>) and their argument.
\<close>

record env =
  accessSecretVersion :: "string \<Rightarrow> js_error + string"
  predictions_create :: "string \<Rightarrow> create_request \<Rightarrow> js_error + prediction"
  predictions_get :: "string \<Rightarrow> qval option \<Rightarrow> js_error + prediction"

text \<open>
  Every outbound call is recorded, in order, in a trace that each function returns beside
  its result. What is written to the console is not part of the model; the conversion of
  values to strings that a logged template literal performs is, since it can throw.
\<close>

datatype call =
    SecretFetch string
  | CreatePrediction string create_request
  | GetPrediction string "qval option"

section \<open>Responses\<close>

text \<open>
  The handlers build a JavaScript object and hand it to \<^verbatim>\<open>res.status(c).json(obj)\<close>.
  The object is a list of properties in insertion order; a property may hold
  \<^verbatim>\<open>undefined\<close>. \<^verbatim>\<open>res.json\<close> sends \<^verbatim>\<open>JSON.stringify(obj)\<close>, which leaves out every
  property whose value is \<^verbatim>\<open>undefined\<close>.
\<close>

type_synonym jsobject = "(string \<times> jsvalue) list"

definition set_prop :: "jsobject \<Rightarrow> string \<Rightarrow> jsvalue \<Rightarrow> jsobject" where
  "set_prop obj k v =
     (if k \<in> fst ` set obj
      then map (\<lambda>(k', v'). if k' = k then (k', v) else (k', v')) obj
      else obj @ [(k, v)])"

fun stringify :: "jsobject \<Rightarrow> (string \<times> json) list" where
  "stringify [] = []"
| "stringify ((k, None) # obj) = stringify obj"
| "stringify ((k, Some v) # obj) = (k, v) # stringify obj"

record response =
  status_code :: nat
  body :: "(string \<times> json) list"

definition res_json :: "nat \<Rightarrow> jsobject \<Rightarrow> response" where
  "res_json c obj = \<lparr> status_code = c, body = stringify obj \<rparr>"

section \<open>The functions of the service\<close>

text \<open>\<^verbatim>\<open>getReplicateApiKey\<close>: one call to the secret store, at the configured path.\<close>

definition secretPath :: string where
  "secretPath = ''projects/'' @ PROJECT_ID CONFIG @ ''/secrets/'' @ SECRET_NAME CONFIG
                 @ ''/versions/latest''"

definition getReplicateApiKey :: "env \<Rightarrow> (js_error + string) \<times> call list" where
  "getReplicateApiKey e = (accessSecretVersion e secretPath, [SecretFetch secretPath])"

text \<open>
  A template literal converts each interpolated value to a string. \<^verbatim>\<open>undefined\<close>,
  \<^verbatim>\<open>null\<close>, booleans, numbers and strings always convert. An array converts by joining
  the conversions of its elements. An object converts through its \<^verbatim>\<open>toString\<close> and then
  its \<^verbatim>\<open>valueOf\<close>: a parsed JSON object that has a property of its own named
  \<^verbatim>\<open>toString\<close> (a JSON value, so not callable) is left with \<^verbatim>\<open>valueOf\<close>, which is
  either a property of its own, not callable, or the inherited one, which returns the
  object itself; either way the conversion throws a \<^verbatim>\<open>TypeError\<close>. Every other object
  converts with the inherited \<^verbatim>\<open>toString\<close>. The string itself goes to the console only,
  so the model keeps whether the conversion throws.
\<close>

fun toString_throws :: "json \<Rightarrow> bool" where
  "toString_throws JNull = False"
| "toString_throws (JBool b) = False"
| "toString_throws (JNumber x) = False"
| "toString_throws (JString s) = False"
| "toString_throws (JArray xs) = list_ex toString_throws xs"
| "toString_throws (JObject kvs) = (''toString'' \<in> fst ` set kvs)"

definition template_throws :: "jsvalue \<Rightarrow> bool" where
  "template_throws v = (case v of None \<Rightarrow> False | Some j \<Rightarrow> toString_throws j)"

text \<open>The error of a failed conversion, with the message that Node gives it.\<close>

definition TypeError_primitive :: js_error where
  "TypeError_primitive = JsError ''Cannot convert object to primitive value''"

text \<open>
  \<^verbatim>\<open>createVideoGeneration(prompt, imageUrl, resolution = CONFIG.DEFAULT_RESOLUTION)\<close>:
  the default applies when the argument is \<^verbatim>\<open>undefined\<close>. After the remote call, the
  function logs a template literal of \<^verbatim>\<open>prediction.id\<close> and \<^verbatim>\<open>prediction.status\<close>,
  inside the \<^verbatim>\<open>try\<close>: when one of the two conversions throws, the function throws. The
  \<^verbatim>\<open>catch\<close> block logs and throws the same error again. The result is
  \<^verbatim>\<open>prediction.id\<close>.
\<close>

definition createVideoGeneration ::
  "env \<Rightarrow> qval option \<Rightarrow> qval option \<Rightarrow> qval option \<Rightarrow> (js_error + jsvalue) \<times> call list" where
  "createVideoGeneration e prompt imageUrl resolution_arg =
     (let resolution = (case resolution_arg of
                          None \<Rightarrow> Some (QStr (DEFAULT_RESOLUTION CONFIG))
                        | Some r \<Rightarrow> Some r) in
      case getReplicateApiKey e of
        (Inl error, t) \<Rightarrow> (Inl error, t)
      | (Inr apiKey, t) \<Rightarrow>
          (let req = \<lparr> model = DEFAULT_MODEL CONFIG,
                       input_prompt = prompt,
                       input_image = imageUrl,
                       input_resolution = resolution \<rparr>;
               t' = t @ [CreatePrediction apiKey req] in
           case predictions_create e apiKey req of
             Inl error \<Rightarrow> (Inl error, t')
           | Inr prediction \<Rightarrow>
               if template_throws (prediction ''id'') \<or> template_throws (prediction ''status'')
               then (Inl TypeError_primitive, t')
               else (Inr (prediction ''id''), t')))"

text \<open>
  \<^verbatim>\<open>checkVideoStatus(taskId)\<close>: the object literal with seven properties, then
  \<^verbatim>\<open>output_url\<close> when the status is \<^verbatim>\<open>"succeeded"\<close>, \<^verbatim>\<open>error\<close> when it is
  \<^verbatim>\<open>"failed"\<close> (\<^verbatim>\<open>===\<close>: the status is that very string).
\<close>

definition checkVideoStatus ::
  "env \<Rightarrow> qval option \<Rightarrow> (js_error + jsobject) \<times> call list" where
  "checkVideoStatus e taskId =
     (case getReplicateApiKey e of
        (Inl error, t) \<Rightarrow> (Inl error, t)
      | (Inr apiKey, t) \<Rightarrow>
          (let t' = t @ [GetPrediction apiKey taskId] in
           case predictions_get e apiKey taskId of
             Inl error \<Rightarrow> (Inl error, t')
           | Inr prediction \<Rightarrow>
               (let response = [(''taskId'', prediction ''id''),
                                (''status'', prediction ''status''),
                                (''created_at'', prediction ''created_at''),
                                (''started_at'', prediction ''started_at''),
                                (''completed_at'', prediction ''completed_at''),
                                (''model'', prediction ''model''),
                                (''version'', prediction ''version'')] in
                if prediction ''status'' = Some (JString ''succeeded'')
                then (Inr (set_prop response ''output_url'' (prediction ''output'')), t')
                else if prediction ''status'' = Some (JString ''failed'')
                then (Inr (set_prop response ''error'' (prediction ''error'')), t')
                else (Inr response, t'))))"

section \<open>The routes\<close>

text \<open>\<^verbatim>\<open>GET /api/createVideo\<close>.\<close>

definition createVideo_handler :: "env \<Rightarrow> query \<Rightarrow> response \<times> call list" where
  "createVideo_handler e q =
     (let prompt = q ''prompt''; imageUrl = q ''imageUrl''; resolution = q ''resolution'' in
      if \<not> truthy prompt \<or> \<not> truthy imageUrl
      then (res_json 400
              [(''error'', Some (JString ''Missing required parameters: prompt and imageUrl''))],
            [])
      else
        (case createVideoGeneration e prompt imageUrl resolution of
           (Inr taskId, t) \<Rightarrow>
             (res_json 200
                [(''taskId'', taskId),
                 (''status'', Some (JString ''started'')),
                 (''message'', Some (JString ''Video generation task created successfully''))],
              t)
         | (Inl error, t) \<Rightarrow>
             (res_json 500
                [(''error'', Some (JString ''Failed to create video generation task'')),
                 (''details'', Some (JString (message error)))],
              t)))"

text \<open>\<^verbatim>\<open>GET /api/checkStatus\<close>.\<close>

definition checkStatus_handler :: "env \<Rightarrow> query \<Rightarrow> response \<times> call list" where
  "checkStatus_handler e q =
     (let taskId = q ''taskId'' in
      if \<not> truthy taskId
      then (res_json 400 [(''error'', Some (JString ''Missing required parameter: taskId''))],
            [])
      else
        (case checkVideoStatus e taskId of
           (Inr status, t) \<Rightarrow> (res_json 200 status, t)
         | (Inl error, t) \<Rightarrow>
             (res_json 500
                [(''error'', Some (JString ''Failed to check video status'')),
                 (''details'', Some (JString (message error)))],
              t)))"

text \<open>
  \<^verbatim>\<open>GET /api/test\<close>: the handler reads nothing of the request and calls nothing; its
  \<^verbatim>\<open>catch\<close> block is not reachable from sending a literal.
\<close>

definition test_handler :: "env \<Rightarrow> query \<Rightarrow> response \<times> call list" where
  "test_handler e q =
     (res_json 200
        [(''taskId'', Some (JString ''test-1116'')),
         (''status'', Some (JString ''succeeded'')),
         (''output_url'', Some (JString
            ''https://commondatastorage.googleapis.com/gtv-videos-bucket/sample/ForBiggerBlazes.mp4'')),
         (''message'', Some (JString ''This is a test response''))],
      [])"

section \<open>Stubs of the outside world\<close>

text \<open>
  Concrete collaborators and requests, at which the theorems below are instantiated: a
  secret store and a remote API that answer every call the same way, and prediction
  records as the remote API's documentation shows them.
\<close>

abbreviation stub_env ::
  "js_error + string \<Rightarrow> js_error + prediction \<Rightarrow> js_error + prediction \<Rightarrow> env" where
  "stub_env s c g \<equiv>
     \<lparr> accessSecretVersion = (\<lambda>_. s),
       predictions_create = (\<lambda>_ _. c),
       predictions_get = (\<lambda>_ _. g) \<rparr>"

abbreviation stub_prediction :: "string \<Rightarrow> prediction" where
  "stub_prediction st \<equiv>
     [''id'' \<mapsto> JString ''abc123xyz'',
      ''status'' \<mapsto> JString st,
      ''created_at'' \<mapsto> JString ''2025-02-02T10:00:00.000Z'',
      ''model'' \<mapsto> JString ''bytedance/seedance-1-lite'',
      ''version'' \<mapsto> JString ''hidden'',
      ''output'' \<mapsto> JString ''https://replicate.delivery/pbxt/video.mp4'',
      ''error'' \<mapsto> JString ''Prediction failed'']"

abbreviation create_query :: query where
  "create_query \<equiv>
     [''prompt'' \<mapsto> QStr ''Make it animated'',
      ''imageUrl'' \<mapsto> QStr ''https://example.com/image.jpg'']"

abbreviation status_query :: query where
  "status_query \<equiv> [''taskId'' \<mapsto> QStr ''abc123xyz'']"

section \<open>Properties\<close>

subsection \<open>Serialisation\<close>

text \<open>
  Looking a field up in the serialised body: the property's value, when the object has
  the property and it is not \<^verbatim>\<open>undefined\<close>.
\<close>

lemma map_of_stringify:
  "distinct (map fst obj) \<Longrightarrow>
   map_of (stringify obj) k = (case map_of obj k of None \<Rightarrow> None | Some v \<Rightarrow> v)"
proof (induction obj rule: stringify.induct)
  case 1
  show ?case by simp
next
  case (2 k' obj)
  then show ?case
    by (force simp: map_of_eq_None_iff split: option.splits)
next
  case (3 k' v obj)
  then show ?case by auto
qed

subsection \<open>What the two service functions return\<close>

lemma checkVideoStatus_relay:
  assumes "accessSecretVersion e secretPath = Inr apiKey"
    and "predictions_get e apiKey taskId = Inr p"
  shows "checkVideoStatus e taskId =
     (Inr ([(''taskId'', p ''id''), (''status'', p ''status''),
            (''created_at'', p ''created_at''), (''started_at'', p ''started_at''),
            (''completed_at'', p ''completed_at''), (''model'', p ''model''),
            (''version'', p ''version'')]
           @ (if p ''status'' = Some (JString ''succeeded'') then [(''output_url'', p ''output'')]
              else if p ''status'' = Some (JString ''failed'') then [(''error'', p ''error'')]
              else [])),
      [SecretFetch secretPath, GetPrediction apiKey taskId])"
  using assms by (simp add: checkVideoStatus_def getReplicateApiKey_def set_prop_def)

lemma checkVideoStatus_throws:
  assumes "accessSecretVersion e secretPath = Inl err
           \<or> (accessSecretVersion e secretPath = Inr apiKey
               \<and> predictions_get e apiKey taskId = Inl err)"
  shows "fst (checkVideoStatus e taskId) = Inl err"
  using assms by (auto simp: checkVideoStatus_def getReplicateApiKey_def)

lemma createVideoGeneration_trace:
  "snd (createVideoGeneration e prompt imageUrl resolution) =
     (case accessSecretVersion e secretPath of
        Inl err \<Rightarrow> [SecretFetch secretPath]
      | Inr apiKey \<Rightarrow>
          [SecretFetch secretPath,
           CreatePrediction apiKey
             \<lparr> model = ''bytedance/seedance-1-lite'',
               input_prompt = prompt,
               input_image = imageUrl,
               input_resolution = (case resolution of None \<Rightarrow> Some (QStr ''480p'')
                                   | Some r \<Rightarrow> Some r) \<rparr>])"
  by (simp add: createVideoGeneration_def getReplicateApiKey_def CONFIG_def Let_def
           split: sum.splits option.splits)

lemma createVideoGeneration_result:
  "fst (createVideoGeneration e prompt imageUrl resolution) =
     (case accessSecretVersion e secretPath of
        Inl err \<Rightarrow> Inl err
      | Inr apiKey \<Rightarrow>
          (case predictions_create e apiKey
                  \<lparr> model = ''bytedance/seedance-1-lite'',
                    input_prompt = prompt,
                    input_image = imageUrl,
                    input_resolution = (case resolution of None \<Rightarrow> Some (QStr ''480p'')
                                        | Some r \<Rightarrow> Some r) \<rparr> of
             Inl err \<Rightarrow> Inl err
           | Inr p \<Rightarrow>
               if template_throws (p ''id'') \<or> template_throws (p ''status'')
               then Inl TypeError_primitive
               else Inr (p ''id'')))"
  by (auto simp: createVideoGeneration_def getReplicateApiKey_def CONFIG_def Let_def
           split: sum.splits option.splits)

subsection \<open>What the handlers answer\<close>

lemma checkStatus_handler_relay:
  assumes "truthy (q ''taskId'')"
    and "accessSecretVersion e secretPath = Inr apiKey"
    and "predictions_get e apiKey (q ''taskId'') = Inr p"
  shows "checkStatus_handler e q =
     (res_json 200
        ([(''taskId'', p ''id''), (''status'', p ''status''),
          (''created_at'', p ''created_at''), (''started_at'', p ''started_at''),
          (''completed_at'', p ''completed_at''), (''model'', p ''model''),
          (''version'', p ''version'')]
         @ (if p ''status'' = Some (JString ''succeeded'') then [(''output_url'', p ''output'')]
            else if p ''status'' = Some (JString ''failed'') then [(''error'', p ''error'')]
            else [])),
      [SecretFetch secretPath, GetPrediction apiKey (q ''taskId'')])"
  using assms(1) checkVideoStatus_relay [OF assms(2,3)]
  by (simp add: checkStatus_handler_def)

lemma checkStatus_handler_throws:
  assumes "truthy (q ''taskId'')"
    and "fst (checkVideoStatus e (q ''taskId'')) = Inl err"
  shows "fst (checkStatus_handler e q) =
     res_json 500
       [(''error'', Some (JString ''Failed to check video status'')),
        (''details'', Some (JString (message err)))]"
  using assms by (cases "checkVideoStatus e (q ''taskId'')") (simp add: checkStatus_handler_def)

lemma createVideo_handler_trace:
  "snd (createVideo_handler e q) =
     (if \<not> truthy (q ''prompt'') \<or> \<not> truthy (q ''imageUrl'') then []
      else snd (createVideoGeneration e (q ''prompt'') (q ''imageUrl'') (q ''resolution'')))"
  by (simp add: createVideo_handler_def split: prod.splits sum.splits)

lemma createVideo_handler_response:
  assumes "truthy (q ''prompt'')" and "truthy (q ''imageUrl'')"
  shows "fst (createVideo_handler e q) =
     (case fst (createVideoGeneration e (q ''prompt'') (q ''imageUrl'') (q ''resolution'')) of
        Inr taskId \<Rightarrow>
          res_json 200
            [(''taskId'', taskId),
             (''status'', Some (JString ''started'')),
             (''message'', Some (JString ''Video generation task created successfully''))]
      | Inl err \<Rightarrow>
          res_json 500
            [(''error'', Some (JString ''Failed to create video generation task'')),
             (''details'', Some (JString (message err)))])"
  using assms by (simp add: createVideo_handler_def split: prod.splits sum.splits)

subsection \<open>Validation of the query parameters\<close>

text \<open>
  C1: a request to \<^verbatim>\<open>/api/createVideo\<close> whose \<^verbatim>\<open>prompt\<close> or \<^verbatim>\<open>imageUrl\<close> is missing or
  the empty string, and a request to \<^verbatim>\<open>/api/checkStatus\<close> whose \<^verbatim>\<open>taskId\<close> is missing
  or the empty string, is answered with status 400 and a body that has an \<^verbatim>\<open>error\<close>
  field; the trace of outbound calls is empty: no secret fetch, no remote call.
\<close>

theorem missing_parameter_is_400:
  "(q ''prompt'' = None \<or> q ''prompt'' = Some (QStr '''')
      \<or> q ''imageUrl'' = None \<or> q ''imageUrl'' = Some (QStr '''')
    \<longrightarrow> status_code (fst (createVideo_handler e q)) = 400
        \<and> map_of (body (fst (createVideo_handler e q))) ''error'' \<noteq> None
        \<and> snd (createVideo_handler e q) = [])
   \<and> (q ''taskId'' = None \<or> q ''taskId'' = Some (QStr '''')
    \<longrightarrow> status_code (fst (checkStatus_handler e q)) = 400
        \<and> map_of (body (fst (checkStatus_handler e q))) ''error'' \<noteq> None
        \<and> snd (checkStatus_handler e q) = [])"
  by (auto simp: createVideo_handler_def checkStatus_handler_def res_json_def)

theorem missing_parameter_is_400_witness:
  "([''imageUrl'' \<mapsto> QStr ''https://example.com/image.jpg''] :: query) ''prompt'' = None
   \<and> status_code (fst (createVideo_handler
         (stub_env (Inr ''key'') (Inr (stub_prediction ''starting'')) (Inr (stub_prediction ''starting'')))
         [''imageUrl'' \<mapsto> QStr ''https://example.com/image.jpg''])) = 400
   \<and> snd (createVideo_handler
         (stub_env (Inr ''key'') (Inr (stub_prediction ''starting'')) (Inr (stub_prediction ''starting'')))
         [''imageUrl'' \<mapsto> QStr ''https://example.com/image.jpg'']) = []
   \<and> ([''taskId'' \<mapsto> QStr []] :: query) ''taskId'' = Some (QStr [])
   \<and> status_code (fst (checkStatus_handler
         (stub_env (Inr ''key'') (Inr (stub_prediction ''starting'')) (Inr (stub_prediction ''starting'')))
         [''taskId'' \<mapsto> QStr []])) = 400
   \<and> snd (checkStatus_handler
         (stub_env (Inr ''key'') (Inr (stub_prediction ''starting'')) (Inr (stub_prediction ''starting'')))
         [''taskId'' \<mapsto> QStr []]) = []"
  using missing_parameter_is_400
          [where q = "[''imageUrl'' \<mapsto> QStr ''https://example.com/image.jpg'']"
             and e = "stub_env (Inr ''key'') (Inr (stub_prediction ''starting''))
                        (Inr (stub_prediction ''starting''))"]
        missing_parameter_is_400
          [where q = "[''taskId'' \<mapsto> QStr []]"
             and e = "stub_env (Inr ''key'') (Inr (stub_prediction ''starting''))
                        (Inr (stub_prediction ''starting''))"]
  by simp

subsection \<open>Relaying the status of a prediction\<close>

text \<open>
  In the next three theorems the request passes validation, the secret fetch returns a
  credential and the remote "get prediction" call returns the record \<open>p\<close>.

  C2: when the record's status is \<^verbatim>\<open>"succeeded"\<close>, the response has status 200, the
  \<^verbatim>\<open>output_url\<close> field of its body is the record's \<^verbatim>\<open>output\<close> field (present with that
  very value whenever the record has one), and the body has no \<^verbatim>\<open>error\<close> field, whatever
  the record's own \<^verbatim>\<open>error\<close> field holds.
\<close>

theorem succeeded_includes_output_url:
  assumes "truthy (q ''taskId'')"
    and "accessSecretVersion e secretPath = Inr apiKey"
    and "predictions_get e apiKey (q ''taskId'') = Inr p"
    and "p ''status'' = Some (JString ''succeeded'')"
  shows "status_code (fst (checkStatus_handler e q)) = 200
       \<and> map_of (body (fst (checkStatus_handler e q))) ''output_url'' = p ''output''
       \<and> map_of (body (fst (checkStatus_handler e q))) ''error'' = None"
  using assms(4) by (simp add: checkStatus_handler_relay [where q = q, OF assms(1-3)] res_json_def map_of_stringify)

theorem succeeded_includes_output_url_witness:
  "truthy (status_query ''taskId'')
   \<and> stub_prediction ''succeeded'' ''status'' = Some (JString ''succeeded'')
   \<and> status_code (fst (checkStatus_handler
         (stub_env (Inr ''key'') (Inl (JsError ''unused'')) (Inr (stub_prediction ''succeeded'')))
         status_query)) = 200
   \<and> map_of (body (fst (checkStatus_handler
         (stub_env (Inr ''key'') (Inl (JsError ''unused'')) (Inr (stub_prediction ''succeeded'')))
         status_query))) ''output_url''
       = Some (JString ''https://replicate.delivery/pbxt/video.mp4'')
   \<and> map_of (body (fst (checkStatus_handler
         (stub_env (Inr ''key'') (Inl (JsError ''unused'')) (Inr (stub_prediction ''succeeded'')))
         status_query))) ''error'' = None"
  using succeeded_includes_output_url
          [where q = status_query and apiKey = "''key''"
             and p = "stub_prediction ''succeeded''"
             and e = "stub_env (Inr ''key'') (Inl (JsError ''unused''))
                        (Inr (stub_prediction ''succeeded''))"]
  by simp

text \<open>
  C3: when the record's status is \<^verbatim>\<open>"failed"\<close>, the response still has status 200, the
  \<^verbatim>\<open>error\<close> field of its body is the record's \<^verbatim>\<open>error\<close> field (present with that very
  value whenever the record has one), and the body has no \<^verbatim>\<open>output_url\<close> field.
\<close>

theorem failed_is_200_with_error:
  assumes "truthy (q ''taskId'')"
    and "accessSecretVersion e secretPath = Inr apiKey"
    and "predictions_get e apiKey (q ''taskId'') = Inr p"
    and "p ''status'' = Some (JString ''failed'')"
  shows "status_code (fst (checkStatus_handler e q)) = 200
       \<and> map_of (body (fst (checkStatus_handler e q))) ''error'' = p ''error''
       \<and> map_of (body (fst (checkStatus_handler e q))) ''output_url'' = None"
  using assms(4) by (simp add: checkStatus_handler_relay [where q = q, OF assms(1-3)] res_json_def map_of_stringify)

theorem failed_is_200_with_error_witness:
  "truthy (status_query ''taskId'')
   \<and> stub_prediction ''failed'' ''status'' = Some (JString ''failed'')
   \<and> status_code (fst (checkStatus_handler
         (stub_env (Inr ''key'') (Inl (JsError ''unused'')) (Inr (stub_prediction ''failed'')))
         status_query)) = 200
   \<and> map_of (body (fst (checkStatus_handler
         (stub_env (Inr ''key'') (Inl (JsError ''unused'')) (Inr (stub_prediction ''failed'')))
         status_query))) ''error'' = Some (JString ''Prediction failed'')
   \<and> map_of (body (fst (checkStatus_handler
         (stub_env (Inr ''key'') (Inl (JsError ''unused'')) (Inr (stub_prediction ''failed'')))
         status_query))) ''output_url'' = None"
  using failed_is_200_with_error
          [where q = status_query and apiKey = "''key''"
             and p = "stub_prediction ''failed''"
             and e = "stub_env (Inr ''key'') (Inl (JsError ''unused''))
                        (Inr (stub_prediction ''failed''))"]
  by simp

text \<open>
  C4: when the record's status is neither \<^verbatim>\<open>"succeeded"\<close> nor \<^verbatim>\<open>"failed"\<close> (such as
  \<^verbatim>\<open>"processing"\<close> and \<^verbatim>\<open>"starting"\<close>, and also a record with no status at all), the
  body has neither an \<^verbatim>\<open>output_url\<close> field nor an \<^verbatim>\<open>error\<close> field, whatever the
  record's \<^verbatim>\<open>output\<close> and \<^verbatim>\<open>error\<close> fields hold.
\<close>

theorem other_status_has_neither:
  assumes "truthy (q ''taskId'')"
    and "accessSecretVersion e secretPath = Inr apiKey"
    and "predictions_get e apiKey (q ''taskId'') = Inr p"
    and "p ''status'' \<noteq> Some (JString ''succeeded'')"
    and "p ''status'' \<noteq> Some (JString ''failed'')"
  shows "map_of (body (fst (checkStatus_handler e q))) ''output_url'' = None
       \<and> map_of (body (fst (checkStatus_handler e q))) ''error'' = None"
  using assms(4,5) by (simp add: checkStatus_handler_relay [where q = q, OF assms(1-3)] res_json_def map_of_stringify)

theorem other_status_has_neither_witness:
  "truthy (status_query ''taskId'')
   \<and> stub_prediction ''processing'' ''status'' \<noteq> Some (JString ''succeeded'')
   \<and> stub_prediction ''processing'' ''status'' \<noteq> Some (JString ''failed'')
   \<and> map_of (body (fst (checkStatus_handler
         (stub_env (Inr ''key'') (Inl (JsError ''unused'')) (Inr (stub_prediction ''processing'')))
         status_query))) ''output_url'' = None
   \<and> map_of (body (fst (checkStatus_handler
         (stub_env (Inr ''key'') (Inl (JsError ''unused'')) (Inr (stub_prediction ''processing'')))
         status_query))) ''error'' = None
   \<and> map_of (body (fst (checkStatus_handler
         (stub_env (Inr ''key'') (Inl (JsError ''unused'')) (Inr (stub_prediction ''starting'')))
         status_query))) ''output_url'' = None
   \<and> map_of (body (fst (checkStatus_handler
         (stub_env (Inr ''key'') (Inl (JsError ''unused'')) (Inr (stub_prediction ''starting'')))
         status_query))) ''error'' = None"
  using other_status_has_neither
          [where q = status_query and apiKey = "''key''"
             and p = "stub_prediction ''processing''"
             and e = "stub_env (Inr ''key'') (Inl (JsError ''unused''))
                        (Inr (stub_prediction ''processing''))"]
        other_status_has_neither
          [where q = status_query and apiKey = "''key''"
             and p = "stub_prediction ''starting''"
             and e = "stub_env (Inr ''key'') (Inl (JsError ''unused''))
                        (Inr (stub_prediction ''starting''))"]
  by simp

text \<open>
  C10: whatever the record's status, the object that \<^verbatim>\<open>checkVideoStatus\<close> returns always
  has the property \<^verbatim>\<open>version\<close>, holding what reading \<^verbatim>\<open>version\<close> of the remote record
  gives. It is the object that the handler sends with status 200, and in the body each of
  \<^verbatim>\<open>version\<close>, \<^verbatim>\<open>taskId\<close>, \<^verbatim>\<open>status\<close>, \<^verbatim>\<open>created_at\<close>, \<^verbatim>\<open>started_at\<close>,
  \<^verbatim>\<open>completed_at\<close> and \<^verbatim>\<open>model\<close> is the record's field (\<^verbatim>\<open>taskId\<close> is its \<^verbatim>\<open>id\<close>): a
  field that the record has is in the body with the same value, and one that the record
  lacks reads as \<^verbatim>\<open>undefined\<close> on both sides.
\<close>

theorem version_is_copied:
  assumes "truthy (q ''taskId'')"
    and "accessSecretVersion e secretPath = Inr apiKey"
    and "predictions_get e apiKey (q ''taskId'') = Inr p"
  shows "(\<exists>obj. fst (checkVideoStatus e (q ''taskId'')) = Inr obj
            \<and> map_of obj ''version'' = Some (p ''version'')
            \<and> fst (checkStatus_handler e q) = res_json 200 obj)
       \<and> status_code (fst (checkStatus_handler e q)) = 200
       \<and> map_of (body (fst (checkStatus_handler e q))) ''version'' = p ''version''
       \<and> map_of (body (fst (checkStatus_handler e q))) ''taskId'' = p ''id''
       \<and> map_of (body (fst (checkStatus_handler e q))) ''status'' = p ''status''
       \<and> map_of (body (fst (checkStatus_handler e q))) ''created_at'' = p ''created_at''
       \<and> map_of (body (fst (checkStatus_handler e q))) ''started_at'' = p ''started_at''
       \<and> map_of (body (fst (checkStatus_handler e q))) ''completed_at'' = p ''completed_at''
       \<and> map_of (body (fst (checkStatus_handler e q))) ''model'' = p ''model''"
  by (simp add: checkStatus_handler_relay [where q = q, OF assms]
        checkVideoStatus_relay [OF assms(2,3)] res_json_def map_of_stringify)

theorem version_is_copied_witness:
  "truthy (status_query ''taskId'')
   \<and> map_of (body (fst (checkStatus_handler
         (stub_env (Inr ''key'') (Inl (JsError ''unused'')) (Inr (stub_prediction ''processing'')))
         status_query))) ''version'' = Some (JString ''hidden'')
   \<and> map_of (body (fst (checkStatus_handler
         (stub_env (Inr ''key'') (Inl (JsError ''unused'')) (Inr (stub_prediction ''processing'')))
         status_query))) ''taskId'' = Some (JString ''abc123xyz'')
   \<and> map_of (body (fst (checkStatus_handler
         (stub_env (Inr ''key'') (Inl (JsError ''unused'')) (Inr (stub_prediction ''processing'')))
         status_query))) ''completed_at'' = None"
  using version_is_copied
          [where q = status_query and apiKey = "''key''"
             and p = "stub_prediction ''processing''"
             and e = "stub_env (Inr ''key'') (Inl (JsError ''unused''))
                        (Inr (stub_prediction ''processing''))"]
  by simp

text \<open>
  The other side of the same fact: a property that reads as \<^verbatim>\<open>undefined\<close> is not
  serialised, so a record without a \<^verbatim>\<open>version\<close> gives a body without one, and a
  succeeded record without an \<^verbatim>\<open>output\<close> gives a body without \<^verbatim>\<open>output_url\<close>.
\<close>

lemma undefined_property_left_out:
  assumes "truthy (q ''taskId'')"
    and "accessSecretVersion e secretPath = Inr apiKey"
    and "predictions_get e apiKey (q ''taskId'') = Inr p"
  shows "p ''version'' = None
           \<Longrightarrow> map_of (body (fst (checkStatus_handler e q))) ''version'' = None"
    and "p ''output'' = None
           \<Longrightarrow> map_of (body (fst (checkStatus_handler e q))) ''output_url'' = None"
  by (simp_all add: checkStatus_handler_relay [where q = q, OF assms]
        res_json_def map_of_stringify)

subsection \<open>Creating a prediction\<close>

text \<open>
  C5: a request to \<^verbatim>\<open>/api/createVideo\<close> with a non-empty \<^verbatim>\<open>prompt\<close> and \<^verbatim>\<open>imageUrl\<close>,
  for which the secret fetch returns a credential and the remote "create prediction" call
  returns a record with the identifier \<open>tid\<close>, is answered with status 200 and the body
  \<^verbatim>\<open>{taskId, status: "started", message}\<close>, in which \<^verbatim>\<open>taskId\<close> is \<open>tid\<close>. The
  record is one whose \<^verbatim>\<open>id\<close> and \<^verbatim>\<open>status\<close> convert to strings for the log line, as
  every string does, and as a missing status does.
\<close>

theorem createVideo_success_is_200_started:
  assumes "truthy (q ''prompt'')" and "truthy (q ''imageUrl'')"
    and "accessSecretVersion e secretPath = Inr apiKey"
    and "predictions_create e apiKey
           \<lparr> model = ''bytedance/seedance-1-lite'',
             input_prompt = q ''prompt'',
             input_image = q ''imageUrl'',
             input_resolution = (case q ''resolution'' of None \<Rightarrow> Some (QStr ''480p'')
                                 | Some r \<Rightarrow> Some r) \<rparr> = Inr p"
    and "p ''id'' = Some tid"
    and "\<not> toString_throws tid"
    and "\<not> template_throws (p ''status'')"
  shows "fst (createVideo_handler e q) =
     \<lparr> status_code = 200,
       body = [(''taskId'', tid),
               (''status'', JString ''started''),
               (''message'', JString ''Video generation task created successfully'')] \<rparr>"
  using assms(3-7)
  by (simp add: createVideo_handler_response [where q = q, OF assms(1,2)]
        createVideoGeneration_result res_json_def template_throws_def)

theorem createVideo_success_is_200_started_witness:
  "truthy (create_query ''prompt'') \<and> truthy (create_query ''imageUrl'')
   \<and> stub_prediction ''starting'' ''id'' = Some (JString ''abc123xyz'')
   \<and> \<not> toString_throws (JString ''abc123xyz'')
   \<and> \<not> template_throws (stub_prediction ''starting'' ''status'')
   \<and> fst (createVideo_handler
         (stub_env (Inr ''key'') (Inr (stub_prediction ''starting'')) (Inl (JsError ''unused'')))
         create_query) =
       \<lparr> status_code = 200,
         body = [(''taskId'', JString ''abc123xyz''),
                 (''status'', JString ''started''),
                 (''message'', JString ''Video generation task created successfully'')] \<rparr>"
  using createVideo_success_is_200_started
          [where q = create_query and apiKey = "''key''"
             and p = "stub_prediction ''starting''" and tid = "JString ''abc123xyz''"
             and e = "stub_env (Inr ''key'') (Inr (stub_prediction ''starting''))
                        (Inl (JsError ''unused''))"]
  by (simp add: template_throws_def)

text \<open>
  Where the log line cannot be built, the route answers 500 although both outbound calls
  returned: a record whose \<^verbatim>\<open>id\<close> or \<^verbatim>\<open>status\<close> is an object with a \<^verbatim>\<open>toString\<close>
  property of its own.
\<close>

lemma createVideo_log_line_throws:
  assumes "truthy (q ''prompt'')" and "truthy (q ''imageUrl'')"
    and "accessSecretVersion e secretPath = Inr apiKey"
    and "predictions_create e apiKey
           \<lparr> model = ''bytedance/seedance-1-lite'',
             input_prompt = q ''prompt'',
             input_image = q ''imageUrl'',
             input_resolution = (case q ''resolution'' of None \<Rightarrow> Some (QStr ''480p'')
                                 | Some r \<Rightarrow> Some r) \<rparr> = Inr p"
    and "template_throws (p ''id'') \<or> template_throws (p ''status'')"
  shows "fst (createVideo_handler e q) =
     \<lparr> status_code = 500,
       body = [(''error'', JString ''Failed to create video generation task''),
               (''details'', JString ''Cannot convert object to primitive value'')] \<rparr>"
  using assms(3-5)
  by (simp add: createVideo_handler_response [where q = q, OF assms(1,2)]
        createVideoGeneration_result res_json_def TypeError_primitive_def)

lemma createVideo_log_line_throws_example:
  "fst (createVideo_handler
         (stub_env (Inr ''key'')
            (Inr [''id'' \<mapsto> JObject [(''toString'', JNumber 1)],
                  ''status'' \<mapsto> JString ''starting''])
            (Inl (JsError ''unused'')))
         create_query) =
     \<lparr> status_code = 500,
       body = [(''error'', JString ''Failed to create video generation task''),
               (''details'', JString ''Cannot convert object to primitive value'')] \<rparr>"
  by (rule createVideo_log_line_throws
        [where apiKey = "''key''"
           and p = "[''id'' \<mapsto> JObject [(''toString'', JNumber 1)],
                     ''status'' \<mapsto> JString ''starting'']"])
     (simp_all add: template_throws_def)

text \<open>
  C8: every "create prediction" call that a request to \<^verbatim>\<open>/api/createVideo\<close> makes
  carries the resolution \<^verbatim>\<open>"480p"\<close> when the request has no \<^verbatim>\<open>resolution\<close> parameter,
  and the supplied value when it has one; and the call is made as soon as the request
  passes validation and the secret fetch returns a credential.
\<close>

theorem resolution_default_or_forwarded:
  "(\<forall>apiKey req. CreatePrediction apiKey req \<in> set (snd (createVideo_handler e q))
      \<longrightarrow> (q ''resolution'' = None \<longrightarrow> input_resolution req = Some (QStr ''480p''))
        \<and> (\<forall>r. q ''resolution'' = Some r \<longrightarrow> input_resolution req = Some r))
   \<and> (truthy (q ''prompt'') \<and> truthy (q ''imageUrl'')
        \<and> accessSecretVersion e secretPath = Inr k
      \<longrightarrow> (\<exists>req. snd (createVideo_handler e q) = [SecretFetch secretPath, CreatePrediction k req]))"
  by (auto simp: createVideo_handler_trace createVideoGeneration_trace
           split: if_splits sum.splits)

theorem resolution_default_or_forwarded_witness:
  "truthy (create_query ''prompt'') \<and> truthy (create_query ''imageUrl'')
   \<and> create_query ''resolution'' = None
   \<and> (\<exists>req. snd (createVideo_handler
                 (stub_env (Inr ''key'') (Inr (stub_prediction ''starting''))
                    (Inl (JsError ''unused'')))
                 create_query) = [SecretFetch secretPath, CreatePrediction ''key'' req]
            \<and> input_resolution req = Some (QStr ''480p''))
   \<and> (\<exists>req. snd (createVideo_handler
                 (stub_env (Inr ''key'') (Inr (stub_prediction ''starting''))
                    (Inl (JsError ''unused'')))
                 (create_query(''resolution'' \<mapsto> QStr ''720p'')))
              = [SecretFetch secretPath, CreatePrediction ''key'' req]
            \<and> input_resolution req = Some (QStr ''720p''))"
  using resolution_default_or_forwarded
          [where q = create_query and k = "''key''"
             and e = "stub_env (Inr ''key'') (Inr (stub_prediction ''starting''))
                        (Inl (JsError ''unused''))"]
        resolution_default_or_forwarded
          [where q = "create_query(''resolution'' \<mapsto> QStr ''720p'')" and k = "''key''"
             and e = "stub_env (Inr ''key'') (Inr (stub_prediction ''starting''))
                        (Inl (JsError ''unused''))"]
  by auto

text \<open>
  C9: every "create prediction" call that a request to \<^verbatim>\<open>/api/createVideo\<close> makes
  carries the model \<^verbatim>\<open>"bytedance/seedance-1-lite"\<close>, the configured default, for every
  query and every answer of the outside world; and the call is made as soon as the
  request passes validation and the secret fetch returns a credential.
\<close>

theorem model_is_fixed:
  "(\<forall>apiKey req. CreatePrediction apiKey req \<in> set (snd (createVideo_handler e q))
      \<longrightarrow> model req = ''bytedance/seedance-1-lite'')
   \<and> (truthy (q ''prompt'') \<and> truthy (q ''imageUrl'')
        \<and> accessSecretVersion e secretPath = Inr k
      \<longrightarrow> (\<exists>req. snd (createVideo_handler e q) = [SecretFetch secretPath, CreatePrediction k req]
                \<and> model req = DEFAULT_MODEL CONFIG))"
  by (auto simp: createVideo_handler_trace createVideoGeneration_trace CONFIG_def
           split: if_splits sum.splits)

theorem model_is_fixed_witness:
  "truthy (create_query ''prompt'') \<and> truthy (create_query ''imageUrl'')
   \<and> (\<exists>req. snd (createVideo_handler
                 (stub_env (Inr ''key'') (Inr (stub_prediction ''starting''))
                    (Inl (JsError ''unused'')))
                 (create_query(''model'' \<mapsto> QStr ''another/model'')))
              = [SecretFetch secretPath, CreatePrediction ''key'' req]
            \<and> model req = ''bytedance/seedance-1-lite'')"
  using model_is_fixed
          [where q = "create_query(''model'' \<mapsto> QStr ''another/model'')" and k = "''key''"
             and e = "stub_env (Inr ''key'') (Inr (stub_prediction ''starting''))
                        (Inl (JsError ''unused''))"]
  by auto

subsection \<open>Failures of the outside world\<close>

text \<open>
  C6: a request to \<^verbatim>\<open>/api/createVideo\<close> or \<^verbatim>\<open>/api/checkStatus\<close> that passes validation,
  and for which the secret fetch throws, or the secret fetch returns a credential and the
  remote call throws, is answered with status 500 and a body of exactly an \<^verbatim>\<open>error\<close>
  field and a \<^verbatim>\<open>details\<close> field, and \<^verbatim>\<open>details\<close> is the message of the thrown error,
  unchanged.
\<close>

theorem upstream_failure_is_500_with_details:
  "(truthy (q ''prompt'') \<and> truthy (q ''imageUrl'')
      \<and> (accessSecretVersion e secretPath = Inl err
          \<or> (accessSecretVersion e secretPath = Inr apiKey
              \<and> predictions_create e apiKey
                    \<lparr> model = ''bytedance/seedance-1-lite'',
                      input_prompt = q ''prompt'',
                      input_image = q ''imageUrl'',
                      input_resolution = (case q ''resolution'' of
                                            None \<Rightarrow> Some (QStr ''480p'')
                                          | Some r \<Rightarrow> Some r) \<rparr> = Inl err))
    \<longrightarrow> fst (createVideo_handler e q) =
          \<lparr> status_code = 500,
            body = [(''error'', JString ''Failed to create video generation task''),
                    (''details'', JString (message err))] \<rparr>)
   \<and> (truthy (q ''taskId'')
      \<and> (accessSecretVersion e secretPath = Inl err
          \<or> (accessSecretVersion e secretPath = Inr apiKey
              \<and> predictions_get e apiKey (q ''taskId'') = Inl err))
    \<longrightarrow> fst (checkStatus_handler e q) =
          \<lparr> status_code = 500,
            body = [(''error'', JString ''Failed to check video status''),
                    (''details'', JString (message err))] \<rparr>)"
proof (intro conjI impI)
  assume a: "truthy (q ''prompt'') \<and> truthy (q ''imageUrl'')
      \<and> (accessSecretVersion e secretPath = Inl err
          \<or> (accessSecretVersion e secretPath = Inr apiKey
              \<and> predictions_create e apiKey
                    \<lparr> model = ''bytedance/seedance-1-lite'',
                      input_prompt = q ''prompt'',
                      input_image = q ''imageUrl'',
                      input_resolution = (case q ''resolution'' of
                                            None \<Rightarrow> Some (QStr ''480p'')
                                          | Some r \<Rightarrow> Some r) \<rparr> = Inl err))"
  then have "fst (createVideoGeneration e (q ''prompt'') (q ''imageUrl'') (q ''resolution''))
               = Inl err"
    by (auto simp: createVideoGeneration_result)
  with a show "fst (createVideo_handler e q) =
          \<lparr> status_code = 500,
            body = [(''error'', JString ''Failed to create video generation task''),
                    (''details'', JString (message err))] \<rparr>"
    by (simp add: createVideo_handler_response [where q = q] res_json_def)
next
  assume b: "truthy (q ''taskId'')
      \<and> (accessSecretVersion e secretPath = Inl err
          \<or> (accessSecretVersion e secretPath = Inr apiKey
              \<and> predictions_get e apiKey (q ''taskId'') = Inl err))"
  then have "fst (checkVideoStatus e (q ''taskId'')) = Inl err"
    by (intro checkVideoStatus_throws [where apiKey = apiKey]) simp
  with b show "fst (checkStatus_handler e q) =
          \<lparr> status_code = 500,
            body = [(''error'', JString ''Failed to check video status''),
                    (''details'', JString (message err))] \<rparr>"
    by (simp add: checkStatus_handler_throws [where q = q] res_json_def)
qed

theorem upstream_failure_is_500_with_details_witness:
  "truthy (create_query ''prompt'') \<and> truthy (create_query ''imageUrl'')
   \<and> truthy (status_query ''taskId'')
   \<and> fst (createVideo_handler
         (stub_env (Inl (JsError ''Permission denied accessing secret''))
            (Inr (stub_prediction ''starting'')) (Inr (stub_prediction ''starting'')))
         create_query) =
       \<lparr> status_code = 500,
         body = [(''error'', JString ''Failed to create video generation task''),
                 (''details'', JString ''Permission denied accessing secret'')] \<rparr>
   \<and> fst (createVideo_handler
         (stub_env (Inr ''key'') (Inl (JsError ''Request failed: 401 Unauthorized''))
            (Inr (stub_prediction ''starting'')))
         create_query) =
       \<lparr> status_code = 500,
         body = [(''error'', JString ''Failed to create video generation task''),
                 (''details'', JString ''Request failed: 401 Unauthorized'')] \<rparr>
   \<and> fst (checkStatus_handler
         (stub_env (Inl (JsError ''Permission denied accessing secret''))
            (Inr (stub_prediction ''starting'')) (Inr (stub_prediction ''starting'')))
         status_query) =
       \<lparr> status_code = 500,
         body = [(''error'', JString ''Failed to check video status''),
                 (''details'', JString ''Permission denied accessing secret'')] \<rparr>
   \<and> fst (checkStatus_handler
         (stub_env (Inr ''key'') (Inr (stub_prediction ''starting''))
            (Inl (JsError ''Request failed: 404 Not Found'')))
         status_query) =
       \<lparr> status_code = 500,
         body = [(''error'', JString ''Failed to check video status''),
                 (''details'', JString ''Request failed: 404 Not Found'')] \<rparr>"
  using upstream_failure_is_500_with_details
          [where q = create_query and apiKey = "''key''"
             and err = "JsError ''Permission denied accessing secret''"
             and e = "stub_env (Inl (JsError ''Permission denied accessing secret''))
                        (Inr (stub_prediction ''starting'')) (Inr (stub_prediction ''starting''))"]
        upstream_failure_is_500_with_details
          [where q = create_query and apiKey = "''key''"
             and err = "JsError ''Request failed: 401 Unauthorized''"
             and e = "stub_env (Inr ''key'') (Inl (JsError ''Request failed: 401 Unauthorized''))
                        (Inr (stub_prediction ''starting''))"]
        upstream_failure_is_500_with_details
          [where q = status_query and apiKey = "''key''"
             and err = "JsError ''Permission denied accessing secret''"
             and e = "stub_env (Inl (JsError ''Permission denied accessing secret''))
                        (Inr (stub_prediction ''starting'')) (Inr (stub_prediction ''starting''))"]
        upstream_failure_is_500_with_details
          [where q = status_query and apiKey = "''key''"
             and err = "JsError ''Request failed: 404 Not Found''"
             and e = "stub_env (Inr ''key'') (Inr (stub_prediction ''starting''))
                        (Inl (JsError ''Request failed: 404 Not Found''))"]
  by simp

subsection \<open>The test route\<close>

text \<open>
  C7: every request to \<^verbatim>\<open>/api/test\<close>, whatever its query parameters and whatever the
  secret store and the remote API would answer, gets status 200 and exactly the fixed
  body with \<^verbatim>\<open>taskId\<close>, \<^verbatim>\<open>status\<close>, \<^verbatim>\<open>output_url\<close> and \<^verbatim>\<open>message\<close>, and the trace of
  outbound calls is empty.
\<close>

theorem test_route_fixed_body:
  "test_handler e q =
     (\<lparr> status_code = 200,
        body = [(''taskId'', JString ''test-1116''),
                (''status'', JString ''succeeded''),
                (''output_url'', JString
                   ''https://commondatastorage.googleapis.com/gtv-videos-bucket/sample/ForBiggerBlazes.mp4''),
                (''message'', JString ''This is a test response'')] \<rparr>,
      [])"
  by (simp add: test_handler_def res_json_def)

end
